theory Spec2Isabelle
  imports Complex_Main "HOL-Library.Word"
begin

unbundle bit_operations_syntax

section \<open>touchosc2midi: a TouchOSC to Midi bridge\<close>

text \<open>
  A shallow embedding of \<^verbatim>\<open>touchosc2midi/touchosc2midi.py\<close>. The program glues three
  libraries together: mido (midi messages and ports), liblo (OSC server and client)
  and netaddr (the broadcast address). The functions of the program are translated
  line by line; of the libraries only the behaviour the program observes is modelled,
  and each such definition says so.
\<close>

subsection \<open>Data\<close>

type_synonym byte = "8 word"

text \<open>Python exceptions the translated code can raise.\<close>

datatype error = AssertionError | IndexError | TypeError

text \<open>
  The message types of mido, in the order of its table of message specifications.
\<close>

datatype mido_type =
    note_off | note_on | polytouch | control_change | program_change | aftertouch
  | pitchwheel | sysex | quarter_frame | songpos | song_select | tune_request
  | clock | start | continue | stop | active_sensing | reset

text \<open>
  A mido message. The program reads two things of a message: \<^verbatim>\<open>message.type\<close> and
  \<^verbatim>\<open>message.bytes()\<close>, so a message is modelled by its type and its bytes;
  the named attributes (channel, note, velocity, ...) are the bytes in another form.
\<close>

record message =
  mtype :: mido_type
  bytes :: "byte list"

subsection \<open>The mido parser\<close>

text \<open>
  Model of the library mido: \<^verbatim>\<open>get_spec\<close> gives, for a status byte, the type and
  the length of the message it starts. A channel message carries its channel in the low
  nibble of the status byte. The length of a sysex message is unbounded (\<open>None\<close>).
  The status bytes 0xf4, 0xf5, 0xf9 and 0xfd are undefined, 0xf7 ends a sysex message.
\<close>

definition get_spec :: "byte \<Rightarrow> (mido_type \<times> nat option) option" where
  "get_spec status =
     (if status < 0x80 then None
      else if status < 0x90 then Some (note_off, Some 3)
      else if status < 0xa0 then Some (note_on, Some 3)
      else if status < 0xb0 then Some (polytouch, Some 3)
      else if status < 0xc0 then Some (control_change, Some 3)
      else if status < 0xd0 then Some (program_change, Some 2)
      else if status < 0xe0 then Some (aftertouch, Some 2)
      else if status < 0xf0 then Some (pitchwheel, Some 3)
      else if status = 0xf0 then Some (sysex, None)
      else if status = 0xf1 then Some (quarter_frame, Some 2)
      else if status = 0xf2 then Some (songpos, Some 3)
      else if status = 0xf3 then Some (song_select, Some 2)
      else if status = 0xf6 then Some (tune_request, Some 1)
      else if status = 0xf8 then Some (clock, Some 1)
      else if status = 0xfa then Some (start, Some 1)
      else if status = 0xfb then Some (continue, Some 1)
      else if status = 0xfc then Some (stop, Some 1)
      else if status = 0xfe then Some (active_sensing, Some 1)
      else if status = 0xff then Some (reset, Some 1)
      else None)"

text \<open>
  The state of a \<^verbatim>\<open>mido.Parser\<close>: the bytes of the message being read (empty when
  none is), its specification, and the queue of the messages parsed so far.
\<close>

record parser =
  p_bytes :: "byte list"
  p_spec :: "(mido_type \<times> nat option) option"
  p_messages :: "message list"

definition new_parser :: parser where
  "new_parser = \<lparr>p_bytes = [], p_spec = None, p_messages = []\<rparr>"

definition deliver :: "message \<Rightarrow> parser \<Rightarrow> parser" where
  "deliver m p = p\<lparr>p_messages := p_messages p @ [m]\<rparr>"

definition reset_parser :: "parser \<Rightarrow> parser" where
  "reset_parser p = p\<lparr>p_bytes := [], p_spec := None\<rparr>"

text \<open>
  A status byte. 0xf7 closes a sysex message and drops anything else that was being
  read. A realtime byte (0xf8 and above) is allowed only inside a sysex message: any
  other message being read is dropped; the realtime message, one byte long, is
  delivered when its status byte is defined. Every other defined status byte starts a
  new message, which is complete at once when its length is 1. An undefined status
  byte below 0xf8 is ignored.
\<close>

definition in_sysex :: "parser \<Rightarrow> bool" where
  "in_sysex p = (case p_spec p of Some (sysex, _) \<Rightarrow> True | _ \<Rightarrow> False)"

definition handle_status_byte :: "byte \<Rightarrow> parser \<Rightarrow> parser" where
  "handle_status_byte b p =
     (if b = 0xf7 then
        (if in_sysex p
         then reset_parser (deliver \<lparr>mtype = sysex, bytes = p_bytes p @ [b]\<rparr> p)
         else reset_parser p)
      else if 0xf8 \<le> b then
        (let p' = (if in_sysex p then p else reset_parser p) in
         case get_spec b of
           None \<Rightarrow> p'
         | Some (t, len) \<Rightarrow> deliver \<lparr>mtype = t, bytes = [b]\<rparr> p')
      else
        (case get_spec b of
           None \<Rightarrow> p
         | Some (t, len) \<Rightarrow>
             if len = Some 1 then
               reset_parser (deliver \<lparr>mtype = t, bytes = [b]\<rparr> p)
             else p\<lparr>p_bytes := [b], p_spec := Some (t, len)\<rparr>))"

text \<open>
  A data byte. Without a message being read it is a stray byte and is ignored;
  otherwise it is appended, and the message is delivered when it has reached the
  length of its specification.
\<close>

definition handle_data_byte :: "byte \<Rightarrow> parser \<Rightarrow> parser" where
  "handle_data_byte b p =
     (case p_spec p of
        None \<Rightarrow> p
      | Some (t, len) \<Rightarrow>
          (let bs = p_bytes p @ [b] in
           if len = Some (length bs)
           then reset_parser (deliver \<lparr>mtype = t, bytes = bs\<rparr> p)
           else p\<lparr>p_bytes := bs\<rparr>))"

definition feed_byte :: "parser \<Rightarrow> byte \<Rightarrow> parser" where
  "feed_byte p b = (if b < 0x80 then handle_data_byte b p else handle_status_byte b p)"

definition feed :: "parser \<Rightarrow> byte list \<Rightarrow> parser" where
  "feed p data = foldl feed_byte p data"

text \<open>
  \<^verbatim>\<open>mido.parse(data)\<close>: the first message found in the data, \<open>None\<close> when the data
  holds no complete message. Data after the first message is ignored.
\<close>

definition parse :: "byte list \<Rightarrow> message option" where
  "parse data =
     (case p_messages (feed new_parser data) of [] \<Rightarrow> None | m # _ \<Rightarrow> Some m)"

text \<open>
  The messages of fixed length that mido builds: the status byte is that of the type
  of the message, the length is that of its specification, and every byte after the
  status byte is a data byte (below 0x80).
\<close>

definition well_formed :: "message \<Rightarrow> bool" where
  "well_formed m =
     (case bytes m of
        [] \<Rightarrow> False
      | status # data \<Rightarrow>
          get_spec status = Some (mtype m, Some (length (bytes m))) \<and>
          (\<forall>d \<in> set data. d < 0x80))"

subsection \<open>The wire codec\<close>

text \<open>
  \<^verbatim>\<open>message_from_oscmidipayload(bites)\<close>: \<open>bites\<close> is the argument list of the OSC
  message; its first element is the payload, a sequence of bytes.
  \<^verbatim>\<open>bites[0][::-1][0:4]\<close> reverses the payload and keeps at most the first four bytes
  of the reversal. Indexing an empty argument list raises \<open>IndexError\<close>.
  Logging is not modelled.
\<close>

definition message_from_oscmidipayload :: "byte list list \<Rightarrow> error + message option" where
  "message_from_oscmidipayload bites =
     (case bites of
        [] \<Rightarrow> Inl IndexError
      | payload # _ \<Rightarrow> Inr (parse (take 4 (rev payload))))"

text \<open>
  \<^verbatim>\<open>message_to_oscmidipayload(message)\<close>: the port id 0 is put in front of the
  bytes of the message, the assertion demands four bytes in all, and the result is
  the tuple \<^verbatim>\<open>(bites[0], bites[3], bites[2], bites[1])\<close>, written here as a list.
\<close>

definition message_to_oscmidipayload :: "message \<Rightarrow> error + byte list" where
  "message_to_oscmidipayload message =
     (let bites = 0 # bytes message in
      if length bites \<noteq> 4 then Inl AssertionError
      else Inr [bites ! 0, bites ! 3, bites ! 2, bites ! 1])"

subsection \<open>The inbound callback\<close>

text \<open>
  The sink is the midi output port of mido, a resource outside the program. Its model
  is the trace of the messages sent through it. Model of the library mido:
  \<^verbatim>\<open>sink.send(msg)\<close> raises \<open>TypeError\<close> when \<open>msg\<close> is not a message, as Python's
  \<open>None\<close> is, and then nothing reaches the port.
\<close>

type_synonym sink = "message list"

definition send :: "sink \<Rightarrow> message option \<Rightarrow> error + sink" where
  "send sink msg = (case msg of None \<Rightarrow> Inl TypeError | Some m \<Rightarrow> Inr (sink @ [m]))"

text \<open>
  \<^verbatim>\<open>create_callback_on_osc(sink)\<close> returns \<^verbatim>\<open>callback(path, args, types, src)\<close>.
  The callback asserts the path and the type tags, decodes the arguments and sends
  the result to the sink. \<open>src\<close> is only logged and is left out.
\<close>

definition create_callback_on_osc ::
    "sink \<Rightarrow> string \<Rightarrow> byte list list \<Rightarrow> string \<Rightarrow> error + sink" where
  "create_callback_on_osc sink path args types =
     (if path \<noteq> ''/midi'' then Inl AssertionError
      else if types \<noteq> ''m'' then Inl AssertionError
      else case message_from_oscmidipayload args of
             Inl e \<Rightarrow> Inl e
           | Inr msg \<Rightarrow> send sink msg)"

subsection \<open>The OSC server\<close>

text \<open>
  Model of the library liblo. The path of an incoming message is an OSC address
  pattern when it holds one of the characters \<^verbatim>\<open> #*,?[]{}\<close>.
\<close>

definition is_pattern :: "string \<Rightarrow> bool" where
  "is_pattern path = list_ex (\<lambda>c. c \<in> set '' #*,?[]{}'') path"

text \<open>
  The address patterns of OSC 1.0, which \<^verbatim>\<open>lo_pattern_match(str, p)\<close> of liblo
  matches against the path \<open>str\<close> of a registered method: \<open>?\<close> stands for any one
  character, \<open>*\<close> for any run of characters, \<open>[...]\<close> for one character of a
  set (with ranges \<open>a-z\<close>, and \<open>!\<close> in front for the complement), \<open>{a,b}\<close> for
  one of the strings of a list, and any other character for itself. A set or a list
  that is not closed matches nothing.
\<close>

fun split_at :: "char \<Rightarrow> string \<Rightarrow> (string \<times> string) option" where
  "split_at d [] = None"
| "split_at d (x # xs) =
     (if x = d then Some ([], xs)
      else case split_at d xs of None \<Rightarrow> None | Some (b, r) \<Rightarrow> Some (x # b, r))"

fun in_chars :: "char \<Rightarrow> string \<Rightarrow> bool" where
  "in_chars s (a # b # c # xs) =
     (if b = CHR ''-''
      then s = a \<or> s = c \<or> ((of_char a :: nat) < of_char s \<and> (of_char s :: nat) < of_char c) \<or>
           in_chars s xs
      else s = a \<or> in_chars s (b # c # xs))"
| "in_chars s (a # xs) = (s = a \<or> in_chars s xs)"
| "in_chars s [] = False"

definition set_match :: "char \<Rightarrow> string \<Rightarrow> bool" where
  "set_match s items =
     (case items of
        [] \<Rightarrow> False
      | x # xs \<Rightarrow> if x = CHR ''!'' then \<not> in_chars s xs else in_chars s items)"

fun split_commas :: "string \<Rightarrow> string list" where
  "split_commas [] = [[]]"
| "split_commas (x # xs) =
     (if x = CHR '','' then [] # split_commas xs
      else case split_commas xs of [] \<Rightarrow> [[x]] | a # as \<Rightarrow> (x # a) # as)"

function lo_pattern_match :: "string \<Rightarrow> string \<Rightarrow> bool" where
  "lo_pattern_match str [] = (str = [])"
| "lo_pattern_match str (c # p) =
     (if c = CHR ''*''
      then list_ex (\<lambda>k. lo_pattern_match (drop k str) p) [0..<Suc (length str)]
      else
        (case str of
           [] \<Rightarrow> False
         | s # str' \<Rightarrow>
             if c = CHR ''?'' then lo_pattern_match str' p
             else if c = CHR ''['' then
               (case split_at CHR '']'' p of
                  None \<Rightarrow> False
                | Some (items, rest) \<Rightarrow> set_match s items \<and> lo_pattern_match str' rest)
             else if c = CHR ''{'' then
               (case split_at CHR ''}'' p of
                  None \<Rightarrow> False
                | Some (alts, rest) \<Rightarrow>
                    list_ex
                      (\<lambda>alt. take (length alt) str = alt \<and>
                            lo_pattern_match (drop (length alt) str) rest)
                      (split_commas alts))
             else c = s \<and> lo_pattern_match str' p))"
  by pat_completeness auto
termination
proof -
  have len: "length r \<le> length xs" if "split_at d xs = Some (b, r)" for d xs b r
    using that by (induction xs arbitrary: b) (auto split: if_splits option.splits)
  show ?thesis
    by (relation "measure (\<lambda>(str, p). length p)") (auto dest: len)
qed

declare lo_pattern_match.simps [simp del]

text \<open>
  A message whose type tags differ from the typespec of a method is still given to the
  method when liblo can convert the arguments: between the numeric types and between
  the string types.
\<close>

definition lo_is_numerical_type :: "char \<Rightarrow> bool" where
  "lo_is_numerical_type a = (a \<in> set ''ifhd'')"

definition lo_is_string_type :: "char \<Rightarrow> bool" where
  "lo_is_string_type a = (a \<in> set ''sS'')"

definition lo_can_coerce :: "char \<Rightarrow> char \<Rightarrow> bool" where
  "lo_can_coerce a b =
     (a = b \<or> (lo_is_numerical_type a \<and> lo_is_numerical_type b) \<or>
      (lo_is_string_type a \<and> lo_is_string_type b))"

definition lo_can_coerce_spec :: "string \<Rightarrow> string \<Rightarrow> bool" where
  "lo_can_coerce_spec a b = (length a = length b \<and> list_all2 lo_can_coerce a b)"

text \<open>
  A server holds the methods registered with \<^verbatim>\<open>add_method(path, typespec, func)\<close>
  and goes through them in order for an incoming message. A registered method takes
  the message when its path is the path of the message, or the path of the message is
  a pattern that matches it, and its typespec is the type tags of the message or the
  arguments can be converted to it. The handler is called with the path of the method.
  After a handler has returned, the search goes on only for a pattern; the callbacks of
  this program return nothing, which the binding hands to liblo as 0. A message that
  no registered method takes is dropped. An exception of a handler is the result of
  the dispatch. The conversion of the values of the arguments is not modelled, nor is
  the reply that liblo sends back to the sender of a request to list the methods, a
  path that ends in a slash and that no method takes.
\<close>

record osc_method =
  m_path :: string
  m_typespec :: string
  m_func :: "sink \<Rightarrow> string \<Rightarrow> byte list list \<Rightarrow> string \<Rightarrow> error + sink"

fun dispatch ::
    "osc_method list \<Rightarrow> sink \<Rightarrow> string \<Rightarrow> byte list list \<Rightarrow> string \<Rightarrow> error + sink" where
  "dispatch [] sink path args types = Inr sink"
| "dispatch (m # ms) sink path args types =
     (if (m_path m = path \<or> (is_pattern path \<and> lo_pattern_match (m_path m) path)) \<and>
         (m_typespec m = types \<or> lo_can_coerce_spec types (m_typespec m))
      then
        (case m_func m sink (m_path m) args (m_typespec m) of
           Inl e \<Rightarrow> Inl e
         | Inr sink' \<Rightarrow>
             if is_pattern path then dispatch ms sink' path args types else Inr sink')
      else dispatch ms sink path args types)"

text \<open>
  The server of \<^verbatim>\<open>main\<close>:
  \<^verbatim>\<open>server.add_method('/midi', 'm', create_callback_on_osc(midi_out))\<close>
  is its only registration.
\<close>

definition server :: "osc_method list" where
  "server = [\<lparr>m_path = ''/midi'', m_typespec = ''m'', m_func = create_callback_on_osc\<rparr>]"

subsection \<open>The outbound callback\<close>

text \<open>Python's \<^verbatim>\<open>b[i]\<close> for \<open>i \<ge> 0\<close>: \<open>IndexError\<close> out of range.\<close>

definition getitem :: "'a list \<Rightarrow> nat \<Rightarrow> error + 'a" where
  "getitem xs i = (if i < length xs then Inr (xs ! i) else Inl IndexError)"

text \<open>The decimal form of a number, as \<^verbatim>\<open>str.format\<close> and \<^verbatim>\<open>str\<close> print it.\<close>

function str_nat :: "nat \<Rightarrow> string" where
  "str_nat n =
     (if n < 10 then [''0123456789'' ! n]
      else str_nat (n div 10) @ [''0123456789'' ! (n mod 10)])"
  by pat_completeness auto
termination
  by (relation "measure (\<lambda>n. n)") auto

declare str_nat.simps [simp del]

datatype transport = UDP

record address =
  hostname :: string
  port :: nat
  protocol :: transport

text \<open>
  An argument of an OSC message: a float (type tag \<open>f\<close>) or a sequence of raw bytes.
  The only float the program builds is \<^verbatim>\<open>float(b[2]) / 128.0\<close> with \<open>b[2]\<close> a byte;
  such a quotient is exact in binary floating point, so the value is kept as a rational.
\<close>

datatype osc_arg = OscFloat rat | OscBlob "byte list"

record osc_message =
  osc_path :: string
  osc_args :: "osc_arg list"

text \<open>The network is the trace of the calls of \<^verbatim>\<open>liblo.send(target, osc)\<close>.\<close>

type_synonym network = "(address \<times> osc_message) list"

text \<open>
  \<^verbatim>\<open>create_callback_on_midi(target)\<close> returns \<^verbatim>\<open>callback(message)\<close>: a clock message
  returns at once; otherwise the OSC message \<^verbatim>\<open>'/midi/{0}/{1}'.format(8, b[1])\<close> is
  built, the float \<^verbatim>\<open>float(b[2]) / 128.0\<close> is added to it, and it is sent to the target.
\<close>

definition create_callback_on_midi :: "address \<Rightarrow> message \<Rightarrow> network \<Rightarrow> error + network" where
  "create_callback_on_midi target message net =
     (if mtype message = clock then Inr net
      else
        (let b = bytes message in
         case getitem b 1 of
           Inl e \<Rightarrow> Inl e
         | Inr b1 \<Rightarrow>
             (let osc = \<lparr>osc_path = ''/midi/'' @ str_nat 8 @ ''/'' @ str_nat (unat b1),
                         osc_args = []\<rparr> in
              case getitem b 2 of
                Inl e \<Rightarrow> Inl e
              | Inr b2 \<Rightarrow>
                  (let osc' = osc\<lparr>osc_args := osc_args osc @ [OscFloat (of_nat (unat b2) / 128)]\<rparr>
                   in Inr (net @ [(target, osc')])))))"

subsection \<open>Startup\<close>

definition PORT :: nat where
  "PORT = 12345"

text \<open>
  Model of the library netaddr: \<^verbatim>\<open>IPNetwork(ip + "/16").broadcast\<close> is the address
  with every host bit set, and \<^verbatim>\<open>str\<close> prints an address as four decimal octets.
  An IPv4 address is a 32-bit word; \<open>ipv4 a b c d\<close> is the address \<open>a.b.c.d\<close>.
\<close>

definition ipv4 :: "byte \<Rightarrow> byte \<Rightarrow> byte \<Rightarrow> byte \<Rightarrow> 32 word" where
  "ipv4 a b c d =
     push_bit 24 (ucast a) OR push_bit 16 (ucast b) OR push_bit 8 (ucast c) OR ucast d"

definition broadcast :: "32 word \<Rightarrow> nat \<Rightarrow> 32 word" where
  "broadcast ip prefixlen = ip OR mask (32 - prefixlen)"

definition str_ip :: "32 word \<Rightarrow> string" where
  "str_ip ip =
     str_nat (unat (drop_bit 24 ip)) @ ''.'' @
     str_nat (unat (take_bit 8 (drop_bit 16 ip))) @ ''.'' @
     str_nat (unat (take_bit 8 (drop_bit 8 ip))) @ ''.'' @
     str_nat (unat (take_bit 8 ip))"

text \<open>
  The part of \<^verbatim>\<open>main\<close> that resolves the target. \<open>option_ip\<close> is
  \<^verbatim>\<open>options.get('--ip')\<close>, which is \<open>None\<close> when the option is not given;
  \<^verbatim>\<open>not target_address\<close> holds for \<open>None\<close> and for the empty string.
  \<open>main_ip\<close> is the result of \<^verbatim>\<open>main_ip()\<close>, the address of the interface of the
  default route, which the operating system gives.
\<close>

definition target_address :: "string option \<Rightarrow> 32 word \<Rightarrow> string" where
  "target_address option_ip main_ip =
     (case option_ip of
        None \<Rightarrow> str_ip (broadcast main_ip 16)
      | Some a \<Rightarrow> if a = [] then str_ip (broadcast main_ip 16) else a)"

definition target :: "string option \<Rightarrow> 32 word \<Rightarrow> address" where
  "target option_ip main_ip =
     \<lparr>hostname = target_address option_ip main_ip, port = PORT + 1, protocol = UDP\<rparr>"

section \<open>Properties\<close>

subsection \<open>Auxiliary facts\<close>

lemmas parser_defs =
  parse_def feed_def feed_byte_def handle_data_byte_def handle_status_byte_def
  in_sysex_def new_parser_def deliver_def reset_parser_def

lemma get_spec_three:
  assumes "get_spec s = Some (t, Some 3)"
  shows "\<not> s < 0x80" and "s \<noteq> 0xf7" and "\<not> 0xf8 \<le> s"
  using assms
  by (auto simp: get_spec_def word_less_nat_alt word_le_nat_alt split: if_splits)

text \<open>
  A three-byte message followed by a zero byte: the parser reads the message and
  ignores the zero, a stray data byte.
\<close>

lemma parse_three:
  assumes "get_spec s = Some (t, Some 3)" and "d1 < 0x80" and "d2 < 0x80"
  shows "parse [s, d1, d2, 0] = Some \<lparr>mtype = t, bytes = [s, d1, d2]\<rparr>"
  using assms get_spec_three [OF assms(1)]
  by (simp add: parser_defs)

lemma parse_note_on:
  "parse [0x90, 0x3C, 0x64, 0x00] = Some \<lparr>mtype = note_on, bytes = [0x90, 0x3C, 0x64]\<rparr>"
  by (simp add: parser_defs get_spec_def)

text \<open>
  Two data bytes, a status byte and one data byte: the first two bytes are stray, and
  the message the status byte starts is never completed.
\<close>

lemma parse_incomplete: "parse [0x64, 0x3C, 0x90, 0x00] = None"
  by (simp add: parser_defs get_spec_def)

lemma take_rev_four:
  assumes "4 \<le> length p"
  shows "take 4 (rev p) =
           [p ! (length p - 1), p ! (length p - 2), p ! (length p - 3), p ! (length p - 4)]"
    (is "?l = ?r")
proof -
  have len: "length ?l = 4"
    using assms by simp
  have nth: "?l ! i = p ! (length p - Suc i)" if "i < 4" for i
    using that assms by (simp add: rev_nth)
  show ?thesis
  proof (rule nth_equalityI)
    show "length ?l = length ?r"
      using len by simp
  next
    fix i assume "i < length ?l"
    then have "i < 4" using len by simp
    then consider "i = 0" | "i = 1" | "i = 2" | "i = 3" by linarith
    then show "?l ! i = ?r ! i"
      using nth [of i] by cases (simp_all add: eval_nat_numeral)
  qed
qed

lemma take_rev_drop: "take 4 (rev (drop (length p - 4) p)) = take 4 (rev p)"
proof (cases "4 \<le> length p")
  case True
  then have "length p - (length p - 4) = 4" by simp
  then show ?thesis by (simp add: rev_drop)
next
  case False
  then show ?thesis by simp
qed

lemma str_nat_8: "str_nat 8 = ''8''"
  by (simp add: str_nat.simps)

lemma str_nat_60: "str_nat 60 = ''60''"
  by (simp add: str_nat.simps)

lemma str_nat_255: "str_nat 255 = ''255''"
  by (simp add: str_nat.simps)

subsection \<open>The wire codec\<close>

text \<open>
  C8. For a message with the bytes status \<open>s\<close>, data1 \<open>d1\<close> and data2 \<open>d2\<close>,
  \<open>message_to_oscmidipayload\<close> yields the four bytes \<open>[0, d2, d1, s]\<close>; for the
  note-on message \<open>[0x90, 60, 100]\<close> it yields \<open>[0x00, 0x64, 0x3C, 0x90]\<close>.
\<close>

theorem encode_send_order:
  "(bytes m = [s, d1, d2] \<longrightarrow> message_to_oscmidipayload m = Inr [0, d2, d1, s]) \<and>
   message_to_oscmidipayload \<lparr>mtype = note_on, bytes = [0x90, 60, 100]\<rparr> =
     Inr [0x00, 0x64, 0x3C, 0x90]"
  by (simp add: message_to_oscmidipayload_def)

theorem encode_send_order_witness:
  "bytes \<lparr>mtype = control_change, bytes = [0xb3, 7, 127]\<rparr> = [0xb3, 7, 127] \<and>
   message_to_oscmidipayload \<lparr>mtype = control_change, bytes = [0xb3, 7, 127]\<rparr> =
     Inr [0, 127, 7, 0xb3]"
  using encode_send_order [of "\<lparr>mtype = control_change, bytes = [0xb3, 7, 127]\<rparr>" "0xb3" 7 127]
  by simp

text \<open>
  C6. \<open>message_to_oscmidipayload\<close> fails exactly when the message does not have
  three bytes: then the assertion fails, and a message of exactly three bytes is
  encoded into four bytes. The failure is Python's \<open>AssertionError\<close>.
\<close>

theorem encode_fails_iff:
  "(length (bytes m) \<noteq> 3 \<longrightarrow> message_to_oscmidipayload m = Inl AssertionError) \<and>
   (length (bytes m) = 3 \<longrightarrow>
      (\<exists>p. message_to_oscmidipayload m = Inr p \<and> length p = 4))"
  by (simp add: message_to_oscmidipayload_def)

theorem encode_fails_iff_witness:
  "length (bytes \<lparr>mtype = program_change, bytes = [0xc0, 5]\<rparr>) \<noteq> 3 \<and>
   message_to_oscmidipayload \<lparr>mtype = program_change, bytes = [0xc0, 5]\<rparr> =
     Inl AssertionError \<and>
   length (bytes \<lparr>mtype = note_on, bytes = [0x90, 60, 100]\<rparr>) = 3 \<and>
   (\<exists>p. message_to_oscmidipayload \<lparr>mtype = note_on, bytes = [0x90, 60, 100]\<rparr> = Inr p \<and>
        length p = 4)"
  using encode_fails_iff [of "\<lparr>mtype = program_change, bytes = [0xc0, 5]\<rparr>"]
    encode_fails_iff [of "\<lparr>mtype = note_on, bytes = [0x90, 60, 100]\<rparr>"]
  by simp

text \<open>
  C10. For a payload of at least four bytes, \<open>message_from_oscmidipayload\<close> checks no
  length and does not fail: its result is what the parser finds in the last four bytes
  of the payload taken in reversed order, so it is the result for the last four bytes
  alone. A longer payload is cut, not rejected.
\<close>

theorem decode_last_four:
  assumes "4 \<le> length p"
  shows "message_from_oscmidipayload (p # rest) =
           Inr (parse [p ! (length p - 1), p ! (length p - 2),
                       p ! (length p - 3), p ! (length p - 4)]) \<and>
         message_from_oscmidipayload (p # rest) =
           message_from_oscmidipayload [drop (length p - 4) p]"
  using take_rev_four [OF assms]
  by (simp add: message_from_oscmidipayload_def take_rev_drop)

theorem decode_last_four_witness:
  "4 \<le> length [0x07, 0x09, 0x00, 0x64, 0x3C, 0x90 :: byte] \<and>
   message_from_oscmidipayload [[0x07, 0x09, 0x00, 0x64, 0x3C, 0x90]] =
     Inr (Some \<lparr>mtype = note_on, bytes = [0x90, 0x3C, 0x64]\<rparr>) \<and>
   message_from_oscmidipayload [[0x07, 0x09, 0x00, 0x64, 0x3C, 0x90]] =
     message_from_oscmidipayload [[0x00, 0x64, 0x3C, 0x90]]"
proof -
  let ?p = "[0x07, 0x09, 0x00, 0x64, 0x3C, 0x90 :: byte]"
  have len: "4 \<le> length ?p"
    by simp
  have "message_from_oscmidipayload [?p] = Inr (parse [0x90, 0x3C, 0x64, 0x00])"
    using decode_last_four [OF len, of "[]", THEN conjunct1] by simp
  then have first: "message_from_oscmidipayload [?p] =
      Inr (Some \<lparr>mtype = note_on, bytes = [0x90, 0x3C, 0x64]\<rparr>)"
    by (simp only: parse_note_on)
  have second: "message_from_oscmidipayload [?p] =
      message_from_oscmidipayload [[0x00, 0x64, 0x3C, 0x90]]"
    using decode_last_four [OF len, of "[]", THEN conjunct2] by simp
  show ?thesis
    by (intro conjI) (rule len, rule first, rule second)
qed

text \<open>
  C3 (as the code has it). The payload \<open>[0x00, 0x64, 0x3C, 0x90]\<close>, in the order
  port id, data2, data1, status, is decoded to the note-on message with data1 60 and
  data2 100.
\<close>

theorem decode_note_on:
  "message_from_oscmidipayload [[0x00, 0x64, 0x3C, 0x90]] =
     Inr (Some \<lparr>mtype = note_on, bytes = [0x90, 60, 100]\<rparr>)"
  by (simp add: message_from_oscmidipayload_def parse_note_on)

text \<open>
  The payload \<open>[0x00, 0x90, 0x3C, 0x64]\<close>, in the order port id, status, data1,
  data2, is decoded to no message at all.
\<close>

theorem decode_receive_order_none:
  "message_from_oscmidipayload [[0x00, 0x90, 0x3C, 0x64]] = Inr None \<and>
   message_from_oscmidipayload [[0x00, 0x90, 0x3C, 0x64]] \<noteq>
     Inr (Some \<lparr>mtype = note_on, bytes = [0x90, 60, 100]\<rparr>)"
  by (simp add: message_from_oscmidipayload_def parse_incomplete)

text \<open>
  C2 (as the code has it). For every well-formed message \<open>e\<close> of three bytes,
  encoding \<open>e\<close> and decoding the argument list that holds the encoded payload gives
  \<open>e\<close> back: the two directions use the same byte order.
\<close>

theorem decode_encode_identity:
  assumes "well_formed e" and "length (bytes e) = 3"
  shows "(case message_to_oscmidipayload e of
            Inl err \<Rightarrow> Inl err
          | Inr payload \<Rightarrow> message_from_oscmidipayload [payload]) = Inr (Some e)"
proof -
  from assms(2) obtain s d1 d2 where bs: "bytes e = [s, d1, d2]"
    by (auto simp: length_Suc_conv eval_nat_numeral)
  from assms(1) bs have spec: "get_spec s = Some (mtype e, Some 3)"
    and d1: "d1 < 0x80" and d2: "d2 < 0x80"
    by (simp_all add: well_formed_def)
  have enc: "message_to_oscmidipayload e = Inr [0, d2, d1, s]"
    using bs by (simp add: message_to_oscmidipayload_def)
  have "parse [s, d1, d2, 0] = Some \<lparr>mtype = mtype e, bytes = [s, d1, d2]\<rparr>"
    by (rule parse_three [OF spec d1 d2])
  also have "\<lparr>mtype = mtype e, bytes = [s, d1, d2]\<rparr> = e"
    using bs by simp
  finally have "message_from_oscmidipayload [[0, d2, d1, s]] = Inr (Some e)"
    by (simp add: message_from_oscmidipayload_def)
  with enc show ?thesis
    by simp
qed

theorem decode_encode_identity_witness:
  "well_formed \<lparr>mtype = control_change, bytes = [0xb3, 7, 127]\<rparr> \<and>
   length (bytes \<lparr>mtype = control_change, bytes = [0xb3, 7, 127]\<rparr>) = 3 \<and>
   (case message_to_oscmidipayload \<lparr>mtype = control_change, bytes = [0xb3, 7, 127]\<rparr> of
      Inl err \<Rightarrow> Inl err
    | Inr payload \<Rightarrow> message_from_oscmidipayload [payload]) =
     Inr (Some \<lparr>mtype = control_change, bytes = [0xb3, 7, 127]\<rparr>)"
proof -
  let ?e = "\<lparr>mtype = control_change, bytes = [0xb3, 7, 127]\<rparr>"
  have wf: "well_formed ?e"
    by (simp add: well_formed_def get_spec_def)
  have len: "length (bytes ?e) = 3"
    by simp
  show ?thesis
    by (intro conjI) (rule wf, rule len, rule decode_encode_identity [OF wf len])
qed

text \<open>
  The note-on message \<open>[0x90, 60, 100]\<close> is well-formed, has three bytes, is encoded
  to \<open>[0x00, 0x64, 0x3C, 0x90]\<close>, and that payload is decoded to the same message.
\<close>

theorem decode_encode_note_on:
  "well_formed \<lparr>mtype = note_on, bytes = [0x90, 60, 100]\<rparr> \<and>
   length (bytes \<lparr>mtype = note_on, bytes = [0x90, 60, 100]\<rparr>) = 3 \<and>
   message_to_oscmidipayload \<lparr>mtype = note_on, bytes = [0x90, 60, 100]\<rparr> =
     Inr [0x00, 0x64, 0x3C, 0x90] \<and>
   message_from_oscmidipayload [[0x00, 0x64, 0x3C, 0x90]] =
     Inr (Some \<lparr>mtype = note_on, bytes = [0x90, 60, 100]\<rparr>)"
  by (simp add: well_formed_def get_spec_def message_to_oscmidipayload_def
      message_from_oscmidipayload_def parse_note_on)

lemma parse_note_on_exact:
  "parse [0x90, 0x3C, 0x64] = Some \<lparr>mtype = note_on, bytes = [0x90, 0x3C, 0x64]\<rparr>"
  by (simp add: parser_defs get_spec_def)

text \<open>
  C4 (as the code has it). A payload whose length is not 4 is not rejected:
  \<open>message_from_oscmidipayload\<close> returns what the parser finds in the first four
  bytes (or fewer) of the reversed payload, and when that is a message the callback
  sends it to the sink.
\<close>

theorem decode_other_lengths:
  assumes "length p \<noteq> 4"
  shows "message_from_oscmidipayload (p # rest) = Inr (parse (take 4 (rev p))) \<and>
         (parse (take 4 (rev p)) = Some m \<longrightarrow>
            create_callback_on_osc sink ''/midi'' (p # rest) ''m'' = Inr (sink @ [m]))"
  by (simp add: message_from_oscmidipayload_def create_callback_on_osc_def send_def)

theorem decode_other_lengths_witness:
  "length [0x64, 0x3C, 0x90 :: byte] \<noteq> 4 \<and>
   parse (take 4 (rev [0x64, 0x3C, 0x90])) =
     Some \<lparr>mtype = note_on, bytes = [0x90, 0x3C, 0x64]\<rparr> \<and>
   message_from_oscmidipayload [[0x64, 0x3C, 0x90]] =
     Inr (Some \<lparr>mtype = note_on, bytes = [0x90, 0x3C, 0x64]\<rparr>) \<and>
   create_callback_on_osc [] ''/midi'' [[0x64, 0x3C, 0x90]] ''m'' =
     Inr [\<lparr>mtype = note_on, bytes = [0x90, 0x3C, 0x64]\<rparr>]"
proof -
  let ?p = "[0x64, 0x3C, 0x90 :: byte]"
  let ?m = "\<lparr>mtype = note_on, bytes = [0x90, 0x3C, 0x64]\<rparr>"
  have len: "length ?p \<noteq> 4"
    by simp
  have found: "parse (take 4 (rev ?p)) = Some ?m"
    by (simp add: parse_note_on_exact)
  note inst = decode_other_lengths [OF len, of "[]" ?m "[]"]
  have decoded: "message_from_oscmidipayload [?p] = Inr (Some ?m)"
    using inst [THEN conjunct1] found by simp
  have delivered: "create_callback_on_osc [] ''/midi'' [?p] ''m'' = Inr [?m]"
    using inst [THEN conjunct2] found by simp
  show ?thesis
    by (intro conjI) (rule len, rule found, rule decoded, rule delivered)
qed

text \<open>
  A payload of five bytes is decoded to a note-on message, and the callback sends the
  message to the sink.
\<close>

theorem decode_five_bytes_delivered:
  "length [0x09, 0x00, 0x64, 0x3C, 0x90 :: byte] \<noteq> 4 \<and>
   message_from_oscmidipayload [[0x09, 0x00, 0x64, 0x3C, 0x90]] =
     Inr (Some \<lparr>mtype = note_on, bytes = [0x90, 0x3C, 0x64]\<rparr>) \<and>
   create_callback_on_osc [] ''/midi'' [[0x09, 0x00, 0x64, 0x3C, 0x90]] ''m'' =
     Inr [\<lparr>mtype = note_on, bytes = [0x90, 0x3C, 0x64]\<rparr>]"
  by (simp add: message_from_oscmidipayload_def create_callback_on_osc_def send_def
      parse_note_on)

text \<open>
  When the parser finds no message, the callback calls \<open>send\<close> with \<open>None\<close>: the
  port raises \<open>TypeError\<close>.
\<close>

lemma callback_on_osc_no_message:
  assumes "parse (take 4 (rev p)) = None"
  shows "create_callback_on_osc sink ''/midi'' (p # rest) ''m'' = Inl TypeError"
  using assms
  by (simp add: message_from_oscmidipayload_def create_callback_on_osc_def send_def)

subsection \<open>The inbound relay\<close>

text \<open>
  The callback itself does not discard a message with another path or other type
  tags: its assertion fails. The sink is not called.
\<close>

lemma callback_on_osc_asserts:
  assumes "path \<noteq> ''/midi'' \<or> types \<noteq> ''m''"
  shows "create_callback_on_osc sink path args types = Inl AssertionError"
  using assms by (auto simp: create_callback_on_osc_def)





text \<open>
  A message with the path \<open>/midi\<close> and the type tag \<open>m\<close> reaches the callback, and
  the message that the parser finds reaches the sink.
\<close>

lemma inbound_match_delivered:
  assumes "parse (take 4 (rev p)) = Some m"
  shows "dispatch server sink ''/midi'' (p # rest) ''m'' = Inr (sink @ [m])"
  using assms
  by (simp add: server_def is_pattern_def create_callback_on_osc_def
      message_from_oscmidipayload_def send_def)

subsection \<open>The outbound relay\<close>

text \<open>
  C7. For a message of type clock the outbound callback returns at once: nothing is
  encoded and nothing is sent to the target.
\<close>

theorem clock_not_relayed:
  assumes "mtype message = clock"
  shows "create_callback_on_midi tgt message net = Inr net"
  using assms by (simp add: create_callback_on_midi_def)

theorem clock_not_relayed_witness:
  "mtype \<lparr>mtype = clock, bytes = [0xf8]\<rparr> = clock \<and>
   create_callback_on_midi \<lparr>hostname = ''192.168.255.255'', port = 12346, protocol = UDP\<rparr>
     \<lparr>mtype = clock, bytes = [0xf8]\<rparr> [] = Inr []"
  using clock_not_relayed [of "\<lparr>mtype = clock, bytes = [0xf8]\<rparr>"
      "\<lparr>hostname = ''192.168.255.255'', port = 12346, protocol = UDP\<rparr>" "[]"]
  by simp

text \<open>
  C1 (as the code has it). For a message that is not of type clock and has at least
  three bytes, the outbound callback sends one OSC message to the target: its path is
  \<open>/midi/8/\<close> followed by the second byte in decimal, and its only argument is the
  float that is the third byte divided by 128.
\<close>

theorem outbound_message:
  assumes "mtype message \<noteq> clock" and "bytes message = s # d1 # d2 # ds"
  shows "create_callback_on_midi tgt message net =
           Inr (net @ [(tgt, \<lparr>osc_path = ''/midi/8/'' @ str_nat (unat d1),
                               osc_args = [OscFloat (of_nat (unat d2) / 128)]\<rparr>)])"
  using assms by (simp add: create_callback_on_midi_def getitem_def str_nat_8)

theorem outbound_message_witness:
  "mtype \<lparr>mtype = control_change, bytes = [0xb3, 60, 64]\<rparr> \<noteq> clock \<and>
   bytes \<lparr>mtype = control_change, bytes = [0xb3, 60, 64]\<rparr> = [0xb3, 60, 64] \<and>
   create_callback_on_midi \<lparr>hostname = ''192.168.255.255'', port = 12346, protocol = UDP\<rparr>
     \<lparr>mtype = control_change, bytes = [0xb3, 60, 64]\<rparr> [] =
     Inr [(\<lparr>hostname = ''192.168.255.255'', port = 12346, protocol = UDP\<rparr>,
           \<lparr>osc_path = ''/midi/8/60'', osc_args = [OscFloat (1 / 2)]\<rparr>)]"
  using outbound_message [of "\<lparr>mtype = control_change, bytes = [0xb3, 60, 64]\<rparr>"
      "0xb3" 60 64 "[]"
      "\<lparr>hostname = ''192.168.255.255'', port = 12346, protocol = UDP\<rparr>" "[]"]
  by (simp add: str_nat_60)

text \<open>
  For the note-on message \<open>[0x90, 60, 100]\<close> the encoded payload would be
  \<open>[0x00, 0x64, 0x3C, 0x90]\<close>, but the message the callback sends has the path
  \<open>/midi/8/60\<close> and the float 100/128: it is not the message with the path
  \<open>/midi\<close> and the encoded payload as its one argument.
\<close>

theorem outbound_not_encoded:
  "mtype \<lparr>mtype = note_on, bytes = [0x90, 60, 100]\<rparr> \<noteq> clock \<and>
   message_to_oscmidipayload \<lparr>mtype = note_on, bytes = [0x90, 60, 100]\<rparr> =
     Inr [0x00, 0x64, 0x3C, 0x90] \<and>
   create_callback_on_midi \<lparr>hostname = ''192.168.255.255'', port = 12346, protocol = UDP\<rparr>
     \<lparr>mtype = note_on, bytes = [0x90, 60, 100]\<rparr> [] =
     Inr [(\<lparr>hostname = ''192.168.255.255'', port = 12346, protocol = UDP\<rparr>,
           \<lparr>osc_path = ''/midi/8/60'', osc_args = [OscFloat (100 / 128)]\<rparr>)] \<and>
   \<lparr>osc_path = ''/midi/8/60'', osc_args = [OscFloat (100 / 128)]\<rparr> \<noteq>
     \<lparr>osc_path = ''/midi'', osc_args = [OscBlob [0x00, 0x64, 0x3C, 0x90]]\<rparr>"
  by (simp add: create_callback_on_midi_def getitem_def str_nat_8 str_nat_60
      message_to_oscmidipayload_def)

text \<open>
  A message that is not of type clock and has fewer than three bytes: the index
  is out of range, and nothing is sent.
\<close>

lemma outbound_short_message:
  assumes "mtype message \<noteq> clock" and "length (bytes message) < 3"
  shows "create_callback_on_midi tgt message net = Inl IndexError"
  using assms by (simp add: create_callback_on_midi_def getitem_def Let_def)

subsection \<open>Startup\<close>

lemma unat_ucast_byte: "unat (ucast (a :: byte) :: 32 word) = unat a"
proof -
  have "unat a < 2 ^ 8"
    using unsigned_less [of a] by simp
  then show ?thesis
    by (simp add: unsigned_ucast_eq take_bit_nat_eq_self)
qed

lemma unat_mask_8: "unat (mask 8 :: 32 word) = 255"
  by (simp add: mask_eq_exp_minus_1)

text \<open>The four octets of the broadcast address of \<open>a.b.c.d/16\<close>.\<close>

lemma broadcast_octet_1: "drop_bit 24 (ipv4 a b c d OR mask 16) = ucast a"
  unfolding ipv4_def
  apply (rule bit_word_eqI)
  apply (simp add: bit_simps)
  apply (auto dest: bit_imp_le_length)
  done

lemma broadcast_octet_2: "take_bit 8 (drop_bit 16 (ipv4 a b c d OR mask 16)) = ucast b"
  unfolding ipv4_def
  apply (rule bit_word_eqI)
  apply (simp add: bit_simps)
  apply (auto dest: bit_imp_le_length)
  done

lemma broadcast_octet_3: "take_bit 8 (drop_bit 8 (ipv4 a b c d OR mask 16)) = mask 8"
  unfolding ipv4_def
  apply (rule bit_word_eqI)
  apply (simp add: bit_simps)
  apply (auto dest: bit_imp_le_length)
  done

lemma broadcast_octet_4: "take_bit 8 (ipv4 a b c d OR mask 16) = mask 8"
  unfolding ipv4_def
  apply (rule bit_word_eqI)
  apply (simp add: bit_simps)
  apply (auto dest: bit_imp_le_length)
  done

lemma str_ip_broadcast:
  "str_ip (broadcast (ipv4 a b c d) 16) =
     str_nat (unat a) @ ''.'' @ str_nat (unat b) @ ''.255.255''"
proof -
  have m: "mask (32 - 16) = (mask 16 :: 32 word)"
    by simp
  show ?thesis
    unfolding str_ip_def broadcast_def m broadcast_octet_1 broadcast_octet_2
      broadcast_octet_3 broadcast_octet_4 unat_ucast_byte unat_mask_8 str_nat_255
    by simp
qed

text \<open>
  C9. Without an address on the command line, and also with the empty string as the
  address, the host of the target is the broadcast address of the /16 network of the
  local address \<open>a.b.c.d\<close>, that is \<open>a.b.255.255\<close>; an address given on the
  command line is used as it is. In every case the port of the target is the listening
  port 12345 plus 1, over UDP.
\<close>

theorem target_resolution:
  "target None (ipv4 a b c d) =
     \<lparr>hostname = str_ip (broadcast (ipv4 a b c d) 16), port = PORT + 1, protocol = UDP\<rparr> \<and>
   str_ip (broadcast (ipv4 a b c d) 16) =
     str_nat (unat a) @ ''.'' @ str_nat (unat b) @ ''.255.255'' \<and>
   target (Some []) (ipv4 a b c d) =
     \<lparr>hostname = str_ip (broadcast (ipv4 a b c d) 16), port = PORT + 1, protocol = UDP\<rparr> \<and>
   (given \<noteq> [] \<longrightarrow>
      target (Some given) main_ip = \<lparr>hostname = given, port = PORT + 1, protocol = UDP\<rparr>) \<and>
   PORT = 12345 \<and> PORT + 1 = 12346"
  by (simp add: target_def target_address_def str_ip_broadcast PORT_def)

theorem target_resolution_witness:
  "target None (ipv4 192 168 1 7) =
     \<lparr>hostname = ''192.168.255.255'', port = 12346, protocol = UDP\<rparr> \<and>
   target (Some []) (ipv4 192 168 1 7) =
     \<lparr>hostname = ''192.168.255.255'', port = 12346, protocol = UDP\<rparr> \<and>
   ''10.0.0.255'' \<noteq> [] \<and>
   target (Some ''10.0.0.255'') (ipv4 192 168 1 7) =
     \<lparr>hostname = ''10.0.0.255'', port = 12346, protocol = UDP\<rparr>"
  using target_resolution [of 192 168 1 7 "''10.0.0.255''" "ipv4 192 168 1 7"]
  by (simp add: str_nat.simps)

end
